theory Spec2Isabelle
  imports Complex_Main "HOL-Library.Word" "HOL-Library.Sublist"
begin

section \<open>VoiceGenie: the chat component of src/App.tsx\<close>

text \<open>
  The component of \<^verbatim>\<open>src/App.tsx\<close> is embedded as functions on an explicit
  session state. Everything the browser provides (the build-time environment, the
  transport \<^verbatim>\<open>fetch\<close>, the clock, the speech engine, the built-ins of the
  language whose output depends on the engine) is a field of an \<open>environment\<close>
  record or an argument, so that the theorems hold for every browser and every server.
\<close>

subsection \<open>Strings and values of the language\<close>

text \<open>
  A JavaScript string is a sequence of UTF-16 code units. \<open>lit\<close> writes an ASCII
  literal of the source.
\<close>

type_synonym js_string = "16 word list"

definition lit :: "string \<Rightarrow> js_string" where
  "lit s = map (\<lambda>c. of_char c) s"

text \<open>
  \<^verbatim>\<open>String.prototype.trim\<close> strips the code units that ECMAScript calls
  WhiteSpace (TAB, VT, FF, ZWNBSP and the space separators of Unicode) or
  LineTerminator (LF, CR, LS, PS) from both ends.
\<close>

definition isWhiteSpace :: "16 word \<Rightarrow> bool" where
  "isWhiteSpace c =
     (c = 0x9 \<or> c = 0xB \<or> c = 0xC \<or> c = 0xFEFF \<or> c = 0x20 \<or> c = 0xA0 \<or> c = 0x1680 \<or>
      (0x2000 \<le> c \<and> c \<le> 0x200A) \<or> c = 0x202F \<or> c = 0x205F \<or> c = 0x3000)"

definition isLineTerminator :: "16 word \<Rightarrow> bool" where
  "isLineTerminator c = (c = 0xA \<or> c = 0xD \<or> c = 0x2028 \<or> c = 0x2029)"

definition trimmable :: "16 word \<Rightarrow> bool" where
  "trimmable c = (isWhiteSpace c \<or> isLineTerminator c)"

definition trim :: "js_string \<Rightarrow> js_string" where
  "trim s = rev (dropWhile trimmable (rev (dropWhile trimmable s)))"

text \<open>
  The decimal rendering of an integer, which is what \<^verbatim>\<open>toString()\<close> and a
  template literal give for \<^verbatim>\<open>Date.now()\<close> and for an HTTP status.
\<close>

fun show_nat :: "nat \<Rightarrow> js_string" where
  "show_nat n =
     (if n < 10 then [of_nat (48 + n)] else show_nat (n div 10) @ [of_nat (48 + n mod 10)])"

definition show_int :: "int \<Rightarrow> js_string" where
  "show_int i = (if i < 0 then 0x2D # show_nat (nat (- i)) else show_nat (nat i))"

text \<open>
  The values that \<^verbatim>\<open>response.json()\<close> can produce, and \<^verbatim>\<open>undefined\<close>.
  A number is kept as the rational it denotes; rounding to binary64 is not modelled.
  An object is the list of its own properties.
\<close>

datatype jsval =
    JUndefined
  | JNull
  | JBool bool
  | JNum rat
  | JStr js_string
  | JArr "jsval list"
  | JObj "(js_string \<times> jsval) list"

text \<open>
  A thrown value. Everything thrown inside the component is an \<^verbatim>\<open>Error\<close>
  object (the \<^verbatim>\<open>TypeError\<close> of a failed \<^verbatim>\<open>fetch\<close> or of a property
  read on \<^verbatim>\<open>null\<close>, the \<^verbatim>\<open>SyntaxError\<close> of \<^verbatim>\<open>response.json()\<close>,
  the \<^verbatim>\<open>new Error(...)\<close> of the source), and the component reads only its
  \<^verbatim>\<open>message\<close>.
\<close>

datatype js_error = Error (message: js_string)

text \<open>
  What a promise settles to. \<open>Pending\<close> is the promise that never settles: the
  source sets no timeout on the network call.
\<close>

datatype 'a promise = Resolved 'a | Rejected js_error | Pending

record response =
  ok :: bool
  status :: nat
  statusText :: js_string
  json :: "jsval promise"

record request_init =
  method_req :: js_string
  headers :: "(js_string \<times> js_string) list"
  body :: js_string

record environment =
  VITE_GROQ_API_KEY :: "js_string option"
  fetch :: "js_string \<Rightarrow> request_init \<Rightarrow> response promise"
  speechSynthesis_in_window :: bool
  JSON_stringify :: "jsval \<Rightarrow> js_string"
  Number_toString :: "rat \<Rightarrow> js_string"
  TypeError_message :: "jsval \<Rightarrow> js_string \<Rightarrow> js_string"
  ToPrimitive_message :: "jsval \<Rightarrow> js_string"

text \<open>
  \<open>VITE_GROQ_API_KEY\<close> is \<open>None\<close> where \<^verbatim>\<open>import.meta.env\<close> has no
  such entry. \<open>JSON_stringify\<close> and \<open>Number_toString\<close> are the built-ins of the
  language; \<open>TypeError_message v k\<close> is the text the engine puts into the
  \<^verbatim>\<open>TypeError\<close> it throws when property \<open>k\<close> of \<open>v\<close> is read and \<open>v\<close> is
  \<^verbatim>\<open>null\<close> or \<^verbatim>\<open>undefined\<close>; \<open>ToPrimitive_message v\<close> is the text of
  the \<^verbatim>\<open>TypeError\<close> it throws when the object \<open>v\<close> cannot be converted to a
  primitive value.
\<close>

text \<open>Truthiness, as \<^verbatim>\<open>||\<close> and \<^verbatim>\<open>!\<close> test it.\<close>

fun truthy :: "jsval \<Rightarrow> bool" where
  "truthy JUndefined = False"
| "truthy JNull = False"
| "truthy (JBool b) = b"
| "truthy (JNum n) = (n \<noteq> 0)"
| "truthy (JStr s) = (s \<noteq> [])"
| "truthy (JArr xs) = True"
| "truthy (JObj kvs) = True"

fun join_comma :: "js_string list \<Rightarrow> js_string" where
  "join_comma [] = []"
| "join_comma [s] = s"
| "join_comma (s # t # ts) = s @ 0x2C # join_comma (t # ts)"

text \<open>
  The conversion of a value to a string, as a template literal performs it. It can
  throw. An object is converted through its \<^verbatim>\<open>toString\<close>: the inherited
  method gives \<^verbatim>\<open>[object Object]\<close>; an own property of that name, which in
  a parsed body is never a function, hides the method, the inherited
  \<^verbatim>\<open>valueOf\<close> gives back the object, and the conversion ends in a
  \<^verbatim>\<open>TypeError\<close>. An array is joined with commas, element by element from the
  left, its \<^verbatim>\<open>null\<close> and \<^verbatim>\<open>undefined\<close> elements rendered empty;
  the first element that throws ends the conversion.
\<close>

fun ToString :: "environment \<Rightarrow> jsval \<Rightarrow> js_error + js_string"
  and ToString_elements :: "environment \<Rightarrow> jsval list \<Rightarrow> js_error + js_string list" where
  "ToString env JUndefined = Inr (lit ''undefined'')"
| "ToString env JNull = Inr (lit ''null'')"
| "ToString env (JBool b) = Inr (if b then lit ''true'' else lit ''false'')"
| "ToString env (JNum n) = Inr (Number_toString env n)"
| "ToString env (JStr s) = Inr s"
| "ToString env (JArr xs) =
     (case ToString_elements env xs of
        Inl e \<Rightarrow> Inl e
      | Inr ss \<Rightarrow> Inr (join_comma ss))"
| "ToString env (JObj kvs) =
     (case map_of kvs (lit ''toString'') of
        None \<Rightarrow> Inr (lit ''[object Object]'')
      | Some v \<Rightarrow> Inl (Error (ToPrimitive_message env (JObj kvs))))"
| "ToString_elements env [] = Inr []"
| "ToString_elements env (x # xs) =
     (case (if x = JUndefined \<or> x = JNull then Inr [] else ToString env x) of
        Inl e \<Rightarrow> Inl e
      | Inr s \<Rightarrow>
          (case ToString_elements env xs of
             Inl e \<Rightarrow> Inl e
           | Inr ss \<Rightarrow> Inr (s # ss)))"

text \<open>
  Reading property \<open>k\<close> of \<open>v\<close>, for the keys the component reads
  (\<^verbatim>\<open>choices\<close>, \<^verbatim>\<open>0\<close>, \<^verbatim>\<open>message\<close>, \<^verbatim>\<open>content\<close>): on
  \<^verbatim>\<open>null\<close> and \<^verbatim>\<open>undefined\<close> the read throws; an object gives its own
  property or \<^verbatim>\<open>undefined\<close>; an array and a string answer the index \<^verbatim>\<open>0\<close>;
  nothing else has such a property.
\<close>

fun get_property :: "environment \<Rightarrow> jsval \<Rightarrow> js_string \<Rightarrow> js_error + jsval" where
  "get_property env JUndefined k = Inl (Error (TypeError_message env JUndefined k))"
| "get_property env JNull k = Inl (Error (TypeError_message env JNull k))"
| "get_property env (JObj kvs) k = Inr (case map_of kvs k of None \<Rightarrow> JUndefined | Some v \<Rightarrow> v)"
| "get_property env (JArr xs) k =
     Inr (if k = lit ''0'' then (case xs of [] \<Rightarrow> JUndefined | x # _ \<Rightarrow> x) else JUndefined)"
| "get_property env (JStr s) k =
     Inr (if k = lit ''0'' then (case s of [] \<Rightarrow> JUndefined | c # _ \<Rightarrow> JStr [c]) else JUndefined)"
| "get_property env (JBool b) k = Inr JUndefined"
| "get_property env (JNum n) k = Inr JUndefined"

subsection \<open>The completion client: \<^verbatim>\<open>generateAIResponse\<close>\<close>

text \<open>
  What the client does to the outside, in order: the calls of the transport and the
  lines written with \<^verbatim>\<open>console.error\<close>.
\<close>

datatype logged = NoArgument | Value jsval | Thrown js_error

datatype effect =
    Fetch js_string request_init
  | ConsoleError js_string logged

fun fetch_calls :: "effect list \<Rightarrow> (js_string \<times> request_init) list" where
  "fetch_calls [] = []"
| "fetch_calls (Fetch url init # fx) = (url, init) # fetch_calls fx"
| "fetch_calls (ConsoleError l a # fx) = fetch_calls fx"

definition endpoint :: js_string where
  "endpoint = lit ''https://api.groq.com/openai/v1/chat/completions''"

definition no_key_apology :: js_string where
  "no_key_apology =
     lit ''I'm sorry, I cannot connect to the AI service. Please ensure the API key is configured correctly.''"

definition apology :: "js_string \<Rightarrow> js_string" where
  "apology reason =
     lit ''I apologize, but I encountered an issue fetching a response. Please try again. (''
       @ reason @ lit '')''"

text \<open>The object the source serialises into the body of the request.\<close>

definition request_payload :: "js_string \<Rightarrow> jsval" where
  "request_payload userInput =
     JObj [(lit ''model'', JStr (lit ''gemma2-9b-it'')),
           (lit ''messages'',
              JArr [JObj [(lit ''role'', JStr (lit ''user'')), (lit ''content'', JStr userInput)]]),
           (lit ''max_tokens'', JNum 500),
           (lit ''temperature'', JNum (7 / 10)),
           (lit ''stream'', JBool False)]"

definition request :: "environment \<Rightarrow> js_string \<Rightarrow> js_string \<Rightarrow> request_init" where
  "request env GROQ_API_KEY userInput =
     \<lparr> method_req = lit ''POST'',
       headers = [(lit ''Content-Type'', lit ''application/json''),
                  (lit ''Authorization'', lit ''Bearer '' @ GROQ_API_KEY)],
       body = JSON_stringify env (request_payload userInput) \<rparr>"

text \<open>
  The error of the branch \<^verbatim>\<open>!response.ok\<close>. Its text is a template literal
  whose last part is \<^verbatim>\<open>errorData.message || JSON.stringify(errorData)\<close>,
  converted to a string. Reading \<^verbatim>\<open>errorData.message\<close> throws when the body
  is \<^verbatim>\<open>null\<close>, and the conversion throws when the message is an object that has
  no primitive value; then that \<^verbatim>\<open>TypeError\<close> is what the branch throws, and
  no \<^verbatim>\<open>Error\<close> is built.
\<close>

definition payload_text :: "environment \<Rightarrow> jsval \<Rightarrow> jsval \<Rightarrow> js_error + js_string" where
  "payload_text env errorData m =
     (if truthy m then ToString env m else Inr (JSON_stringify env errorData))"

definition api_error_text :: "response \<Rightarrow> js_string \<Rightarrow> js_string" where
  "api_error_text response payload =
     lit ''Groq API error: '' @ show_nat (status response) @ lit '' '' @ statusText response
       @ lit '' - '' @ payload"

definition not_ok_throws :: "environment \<Rightarrow> response \<Rightarrow> jsval \<Rightarrow> js_error" where
  "not_ok_throws env response errorData =
     (case get_property env errorData (lit ''message'') of
        Inl e \<Rightarrow> e
      | Inr m \<Rightarrow>
          (case payload_text env errorData m of
             Inl e \<Rightarrow> e
           | Inr payload \<Rightarrow> Error (api_error_text response payload)))"

text \<open>\<^verbatim>\<open>data.choices[0].message.content\<close>: four reads, each of which can throw.\<close>

definition read_content :: "environment \<Rightarrow> jsval \<Rightarrow> jsval promise" where
  "read_content env data =
     (case get_property env data (lit ''choices'') of
        Inl e \<Rightarrow> Rejected e
      | Inr choices \<Rightarrow>
     (case get_property env choices (lit ''0'') of
        Inl e \<Rightarrow> Rejected e
      | Inr choice \<Rightarrow>
     (case get_property env choice (lit ''message'') of
        Inl e \<Rightarrow> Rejected e
      | Inr m \<Rightarrow>
     (case get_property env m (lit ''content'') of
        Inl e \<Rightarrow> Rejected e
      | Inr c \<Rightarrow> Resolved c))))"

text \<open>
  The body of the \<^verbatim>\<open>try\<close> block: what it completes with (\<open>Rejected\<close> is a
  throw) and what it did.
\<close>

definition try_block :: "environment \<Rightarrow> js_string \<Rightarrow> js_string \<Rightarrow> jsval promise \<times> effect list" where
  "try_block env GROQ_API_KEY userInput =
     (let init = request env GROQ_API_KEY userInput;
          sent = [Fetch endpoint init]
      in case fetch env endpoint init of
           Pending \<Rightarrow> (Pending, sent)
         | Rejected e \<Rightarrow> (Rejected e, sent)
         | Resolved response \<Rightarrow>
             if \<not> ok response then
               (case json response of
                  Pending \<Rightarrow> (Pending, sent)
                | Rejected e \<Rightarrow> (Rejected e, sent)
                | Resolved errorData \<Rightarrow>
                    (Rejected (not_ok_throws env response errorData),
                     sent @ [ConsoleError (lit ''Groq API error response:'') (Value errorData)]))
             else
               (case json response of
                  Pending \<Rightarrow> (Pending, sent)
                | Rejected e \<Rightarrow> (Rejected e, sent)
                | Resolved data \<Rightarrow> (read_content env data, sent)))"

definition key_missing :: "js_string option \<Rightarrow> bool" where
  "key_missing k = (case k of None \<Rightarrow> True | Some s \<Rightarrow> s = [])"

definition generateAIResponse :: "environment \<Rightarrow> js_string \<Rightarrow> jsval promise \<times> effect list" where
  "generateAIResponse env userInput =
     (case VITE_GROQ_API_KEY env of
        None \<Rightarrow>
          (Resolved (JStr no_key_apology),
           [ConsoleError (lit ''GROQ_API_KEY is not set in environment variables.'') NoArgument])
      | Some GROQ_API_KEY \<Rightarrow>
          if GROQ_API_KEY = [] then
            (Resolved (JStr no_key_apology),
             [ConsoleError (lit ''GROQ_API_KEY is not set in environment variables.'') NoArgument])
          else
            (case try_block env GROQ_API_KEY userInput of
               (Rejected error, did) \<Rightarrow>
                 (Resolved (JStr (apology (message error))),
                  did @ [ConsoleError (lit ''Error calling Groq API:'') (Thrown error)])
             | (settled, did) \<Rightarrow> (settled, did)))"

subsection \<open>The session\<close>

datatype sender = user | ai

record message =
  id_msg :: js_string
  type :: sender
  content :: jsval
  timestamp :: int

text \<open>
  \<open>id_msg\<close> is the field \<^verbatim>\<open>id\<close>. The interface declares \<open>content\<close> a
  string, but the reply stored there is whatever the client resolved with, so the field
  holds a value.

  A callback handed to \<^verbatim>\<open>setTimeout\<close>: \<^verbatim>\<open>() => setError('')\<close>, or
  \<^verbatim>\<open>() => speakText(aiResponse)\<close> together with the \<^verbatim>\<open>speechEnabled\<close>
  that this \<^verbatim>\<open>speakText\<close> closes over.
\<close>

datatype callback = ClearError | SpeakText bool jsval

record utterance =
  text_utt :: js_string
  rate :: rat
  pitch :: rat
  volume :: rat

text \<open>
  A handler parked at \<^verbatim>\<open>await generateAIResponse(...)\<close>: what the awaited
  promise settles to, what the call still does to the outside before it settles, and the
  \<^verbatim>\<open>speechEnabled\<close> of the render the handler belongs to.
\<close>

record suspended =
  reply :: "jsval promise"
  later :: "effect list"
  speech_on :: bool

text \<open>
  The six state variables of the component, and what the tab holds beside them: the
  pending timeouts (delay in milliseconds, callback), the utterances handed to
  \<^verbatim>\<open>window.speechSynthesis\<close> and not cancelled since, the parked handlers, and
  the record of what was done to the outside.
\<close>

record session =
  input :: js_string
  messages :: "message list"
  isLoading :: bool
  isSpeaking :: bool
  speechEnabled :: bool
  error :: js_string
  timers :: "(nat \<times> callback) list"
  speech_queue :: "utterance list"
  awaiting :: "suspended list"
  effects :: "effect list"

definition initial :: session where
  "initial =
     \<lparr> input = [], messages = [], isLoading = False, isSpeaking = False,
       speechEnabled = True, error = [], timers = [], speech_queue = [],
       awaiting = [], effects = [] \<rparr>"

text \<open>The two readings of the clock a handler takes.\<close>

record clock =
  Date_now :: int
  new_Date :: int

subsection \<open>Speech output: \<^verbatim>\<open>speakText\<close> and \<^verbatim>\<open>stopSpeaking\<close>\<close>

definition cancel :: "session \<Rightarrow> session" where
  "cancel s = s\<lparr>speech_queue := []\<rparr>"

definition speak :: "utterance \<Rightarrow> session \<Rightarrow> session" where
  "speak u s = s\<lparr>speech_queue := speech_queue s @ [u]\<rparr>"

text \<open>
  The constructor of an utterance takes an optional string: \<^verbatim>\<open>undefined\<close>
  counts as no argument and leaves the text empty; anything else is converted to a
  string, which can throw.
\<close>

definition utterance_text :: "environment \<Rightarrow> jsval \<Rightarrow> js_error + js_string" where
  "utterance_text env t = (if t = JUndefined then Inr [] else ToString env t)"

definition new_utterance :: "js_string \<Rightarrow> utterance" where
  "new_utterance t = \<lparr> text_utt = t, rate = 9 / 10, pitch = 1, volume = 8 / 10 \<rparr>"

text \<open>
  The first argument is the \<^verbatim>\<open>speechEnabled\<close> of the render whose
  \<^verbatim>\<open>speakText\<close> is called: the function reads the variable it closes over,
  not the state of the session at the time of the call. The declared type of the text is
  a string, but the one caller passes whatever the client resolved with. Where the
  constructor throws, \<^verbatim>\<open>cancel\<close> has run and \<^verbatim>\<open>speak\<close> has not.
\<close>

definition speakText :: "environment \<Rightarrow> bool \<Rightarrow> jsval \<Rightarrow> session \<Rightarrow> session" where
  "speakText env enabled t s =
     (if \<not> enabled \<or> \<not> speechSynthesis_in_window env then s
      else (case utterance_text env t of
              Inl e \<Rightarrow> cancel s
            | Inr spoken \<Rightarrow> speak (new_utterance spoken) (cancel s)))"

text \<open>
  Without \<^verbatim>\<open>window.speechSynthesis\<close> the call of \<^verbatim>\<open>cancel\<close> throws and
  the handler ends before it sets anything.
\<close>

definition stopSpeaking :: "environment \<Rightarrow> session \<Rightarrow> session" where
  "stopSpeaking env s =
     (if speechSynthesis_in_window env then (cancel s)\<lparr>isSpeaking := False\<rparr> else s)"

subsection \<open>The submission handler: \<^verbatim>\<open>handleSubmit\<close>\<close>

definition validation_message :: js_string where
  "validation_message = lit ''Please enter a question or command''"

definition failure_message :: js_string where
  "failure_message = lit ''Failed to get response. Please try again.''"

definition catch_line :: js_string where
  "catch_line = lit ''Error getting AI response:''"

definition userMessage :: "clock \<Rightarrow> js_string \<Rightarrow> message" where
  "userMessage c inp =
     \<lparr> id_msg = show_int (Date_now c), type = user, content = JStr (trim inp),
       timestamp = new_Date c \<rparr>"

definition aiMessage :: "clock \<Rightarrow> jsval \<Rightarrow> message" where
  "aiMessage c aiResponse =
     \<lparr> id_msg = show_int (Date_now c + 1), type = ai, content = aiResponse,
       timestamp = new_Date c \<rparr>"

text \<open>
  The handler up to its \<^verbatim>\<open>await\<close>. By then the call of the client has
  returned without a key, or has reached its own first \<^verbatim>\<open>await\<close>, that of
  \<^verbatim>\<open>fetch\<close>: either way it has made exactly its first effect. What it does
  after that is parked with the handler.
\<close>

definition handleSubmit_sync ::
    "environment \<Rightarrow> clock \<Rightarrow> session \<Rightarrow> session \<times> suspended option" where
  "handleSubmit_sync env c s =
     (if trim (input s) = [] then
        (s\<lparr>error := validation_message, timers := timers s @ [(3000, ClearError)]\<rparr>, None)
      else
        (let (settled, did) = generateAIResponse env (trim (input s))
         in (s\<lparr>messages := messages s @ [userMessage c (input s)],
                input := [],
                isLoading := True,
                error := [],
                effects := effects s @ take 1 did\<rparr>,
             Some \<lparr> reply = settled, later = drop 1 did, speech_on = speechEnabled s \<rparr>)))"

text \<open>
  The handler from the moment the awaited promise settles, in the state the session has
  then: the \<^verbatim>\<open>try\<close> branch, the \<^verbatim>\<open>catch\<close> branch, and
  \<^verbatim>\<open>finally\<close> after either. A promise that never settles never resumes it.
\<close>

definition handleSubmit_resume :: "clock \<Rightarrow> suspended \<Rightarrow> session \<Rightarrow> session" where
  "handleSubmit_resume c p s =
     (case reply p of
        Pending \<Rightarrow> s
      | Resolved aiResponse \<Rightarrow>
          s\<lparr>effects := effects s @ later p,
            messages := messages s @ [aiMessage c aiResponse],
            timers := (if speech_on p
                       then timers s @ [(500, SpeakText (speech_on p) aiResponse)]
                       else timers s),
            isLoading := False\<rparr>
      | Rejected e \<Rightarrow>
          s\<lparr>effects := effects s @ later p @ [ConsoleError catch_line (Thrown e)],
            error := failure_message,
            timers := timers s @ [(5000, ClearError)],
            isLoading := False\<rparr>)"

text \<open>One submission whose round trip nothing interrupts.\<close>

definition handleSubmit :: "environment \<Rightarrow> clock \<Rightarrow> clock \<Rightarrow> session \<Rightarrow> session" where
  "handleSubmit env c c' s =
     (case handleSubmit_sync env c s of
        (s', None) \<Rightarrow> s'
      | (s', Some p) \<Rightarrow> handleSubmit_resume c' p s')"

subsection \<open>Everything that can happen to the session\<close>

text \<open>
  The events of the tab: the form is submitted, the promise of the \<open>k\<close>-th parked
  handler settles, the draft is edited, the two buttons are pressed, the \<open>k\<close>-th
  pending timeout fires, the speech engine reports on an utterance. The form disables its
  controls while \<^verbatim>\<open>isLoading\<close> holds and the engine reports only on what it
  was given, but the handlers do not rely on either, and neither does \<open>step\<close>: it
  accepts every event in every state, and any pending timeout may fire next.
\<close>

datatype event =
    Submit clock
  | Settled nat clock
  | Change js_string
  | ToggleSpeech
  | StopSpeaking
  | Timeout nat
  | UtteranceStart
  | UtteranceEnd
  | UtteranceError

fun run_callback :: "environment \<Rightarrow> callback \<Rightarrow> session \<Rightarrow> session" where
  "run_callback env ClearError s = s\<lparr>error := []\<rparr>"
| "run_callback env (SpeakText enabled t) s = speakText env enabled t s"

definition without :: "nat \<Rightarrow> 'a list \<Rightarrow> 'a list" where
  "without k xs = take k xs @ drop (Suc k) xs"

fun step :: "environment \<Rightarrow> event \<Rightarrow> session \<Rightarrow> session" where
  "step env (Submit c) s =
     (case handleSubmit_sync env c s of
        (s', None) \<Rightarrow> s'
      | (s', Some p) \<Rightarrow> s'\<lparr>awaiting := awaiting s' @ [p]\<rparr>)"
| "step env (Settled k c) s =
     (if k < length (awaiting s) \<and> reply (awaiting s ! k) \<noteq> Pending
      then handleSubmit_resume c (awaiting s ! k) (s\<lparr>awaiting := without k (awaiting s)\<rparr>)
      else s)"
| "step env (Change v) s = s\<lparr>input := v\<rparr>"
| "step env ToggleSpeech s = s\<lparr>speechEnabled := \<not> speechEnabled s\<rparr>"
| "step env StopSpeaking s = stopSpeaking env s"
| "step env (Timeout k) s =
     (if k < length (timers s)
      then run_callback env (snd (timers s ! k)) (s\<lparr>timers := without k (timers s)\<rparr>)
      else s)"
| "step env UtteranceStart s = s\<lparr>isSpeaking := True\<rparr>"
| "step env UtteranceEnd s = s\<lparr>isSpeaking := False\<rparr>"
| "step env UtteranceError s = s\<lparr>isSpeaking := False\<rparr>"

fun run :: "environment \<Rightarrow> event list \<Rightarrow> session \<Rightarrow> session" where
  "run env [] s = s"
| "run env (e # es) s = run env es (step env e s)"

text \<open>
  Whether the \<^verbatim>\<open>catch\<close> branch of \<^verbatim>\<open>handleSubmit\<close> has run: it is the
  only place that writes its line to the console.
\<close>

fun catch_ran :: "effect list \<Rightarrow> bool" where
  "catch_ran [] = False"
| "catch_ran (Fetch url init # fx) = catch_ran fx"
| "catch_ran (ConsoleError l a # fx) = (l = catch_line \<or> catch_ran fx)"

abbreviation completion :: "environment \<Rightarrow> js_string \<Rightarrow> jsval promise" where
  "completion env u \<equiv> fst (generateAIResponse env u)"

abbreviation answer :: "environment \<Rightarrow> js_string \<Rightarrow> js_string \<Rightarrow> response promise" where
  "answer env k u \<equiv> fetch env endpoint (request env k u)"

text \<open>
  The sessions in which the \<^verbatim>\<open>catch\<close> branch has not run and cannot run
  next: no banner of that branch, no console line of it, no timeout of it, and no parked
  handler whose promise is rejected.
\<close>

definition catch_free :: "session \<Rightarrow> bool" where
  "catch_free s =
     (error s \<noteq> failure_message \<and> \<not> catch_ran (effects s) \<and>
      (5000, ClearError) \<notin> set (timers s) \<and>
      list_all (\<lambda>p. (case reply p of Rejected e \<Rightarrow> False | _ \<Rightarrow> True) \<and> \<not> catch_ran (later p))
        (awaiting s))"

subsection \<open>Some browsers, servers and sessions\<close>

text \<open>
  \<open>stand_in\<close> is a browser with a key, a speech engine and a transport that never
  answers; its built-ins are placeholders, and nothing proved below at a concrete
  environment depends on what they return. The other environments change the key or the
  answer of the transport.
\<close>

definition stand_in :: environment where
  "stand_in =
     \<lparr> VITE_GROQ_API_KEY = Some (lit ''gsk_test''),
       fetch = (\<lambda>url init. Pending),
       speechSynthesis_in_window = True,
       JSON_stringify = (\<lambda>v. lit ''{}''),
       Number_toString = (\<lambda>n. lit ''0''),
       TypeError_message = (\<lambda>v k. lit ''Cannot read properties: '' @ k),
       ToPrimitive_message = (\<lambda>v. lit ''Cannot convert object to primitive value'') \<rparr>"

definition null_content :: jsval where
  "null_content =
     JObj [(lit ''choices'', JArr [JObj [(lit ''message'', JObj [(lit ''content'', JNull)])]])]"

definition env_null_content :: environment where
  "env_null_content =
     stand_in\<lparr>fetch := (\<lambda>url init.
        Resolved \<lparr> ok = True, status = 200, statusText = lit ''OK'', json = Resolved null_content \<rparr>)\<rparr>"




definition env_offline :: environment where
  "env_offline = stand_in\<lparr>fetch := (\<lambda>url init. Rejected (Error (lit ''Failed to fetch'')))\<rparr>"

definition env_no_key :: environment where
  "env_no_key = stand_in\<lparr>VITE_GROQ_API_KEY := None\<rparr>"

definition black_hole :: jsval where
  "black_hole =
     JObj [(lit ''choices'',
            JArr [JObj [(lit ''message'',
                         JObj [(lit ''role'', JStr (lit ''assistant'')),
                               (lit ''content'', JStr (lit ''A region of spacetime.''))])]])]"

definition replied :: response where
  "replied = \<lparr> ok = True, status = 200, statusText = lit ''OK'', json = Resolved black_hole \<rparr>"

definition env_reply :: environment where
  "env_reply = stand_in\<lparr>fetch := (\<lambda>url init. Resolved replied)\<rparr>"

definition asking :: session where
  "asking = initial\<lparr>input := lit '' What is a black hole? ''\<rparr>"

definition blank :: session where
  "blank = initial\<lparr>input := lit ''   ''\<rparr>"

definition at_submit :: clock where
  "at_submit = \<lparr> Date_now = 1700000000000, new_Date = 1700000000000 \<rparr>"

definition at_reply :: clock where
  "at_reply = \<lparr> Date_now = 1700000000750, new_Date = 1700000000750 \<rparr>"

text \<open>A parked handler whose promise was rejected.\<close>

definition failing :: suspended where
  "failing = \<lparr> reply = Rejected (Error (lit ''boom'')), later = [], speech_on = True \<rparr>"

text \<open>
  A successful response whose only choice has no \<^verbatim>\<open>message\<close>, and a response
  of status 503 whose \<^verbatim>\<open>message\<close> is an object with an own property
  \<^verbatim>\<open>toString\<close>.
\<close>

definition env_no_message :: environment where
  "env_no_message =
     stand_in\<lparr>fetch := (\<lambda>url init.
        Resolved \<lparr> ok = True, status = 200, statusText = lit ''OK'',
                   json = Resolved (JObj [(lit ''choices'', JArr [JObj []])]) \<rparr>)\<rparr>"

definition unavailable :: response where
  "unavailable =
     \<lparr> ok = False, status = 503, statusText = lit ''Service Unavailable'',
       json = Resolved (JObj [(lit ''message'', JObj [(lit ''toString'', JNum 1)])]) \<rparr>"

definition env_unavailable :: environment where
  "env_unavailable = stand_in\<lparr>fetch := (\<lambda>url init. Resolved unavailable)\<rparr>"

text \<open>
  A question is typed and submitted with speech switched on, speech is switched off
  while the reply is awaited, and the reply arrives.
\<close>

definition toggled_while_waiting :: "event list" where
  "toggled_while_waiting =
     [Change (lit ''What is a black hole?''), Submit at_submit, ToggleSpeech, Settled 0 at_reply]"

section \<open>Properties\<close>

subsection \<open>The completion client, case by case\<close>

lemma try_block_fetch_calls:
  "fetch_calls (snd (try_block env k u)) = [(endpoint, request env k u)]"
  by (simp add: try_block_def Let_def split: promise.splits)

lemma generateAIResponse_not_Rejected:
  "fst (generateAIResponse env u) \<noteq> Rejected e"
  by (simp add: generateAIResponse_def split: option.splits prod.splits promise.splits)


lemma generateAIResponse_no_key:
  assumes "key_missing (VITE_GROQ_API_KEY env)"
  shows "generateAIResponse env u =
           (Resolved (JStr no_key_apology),
            [ConsoleError (lit ''GROQ_API_KEY is not set in environment variables.'') NoArgument])"
  using assms by (simp add: generateAIResponse_def key_missing_def split: option.splits)

lemma try_block_fetch_Rejected:
  "answer env k u = Rejected e \<Longrightarrow> fst (try_block env k u) = Rejected e"
  by (simp add: try_block_def)


lemma fetch_calls_append: "fetch_calls (xs @ ys) = fetch_calls xs @ fetch_calls ys"
  by (induction xs rule: fetch_calls.induct) simp_all

lemma generateAIResponse_effects_key:
  assumes "VITE_GROQ_API_KEY env = Some k" and "k \<noteq> []"
  shows "\<exists>rest. snd (generateAIResponse env u) = Fetch endpoint (request env k u) # rest
            \<and> fetch_calls rest = []"
  using assms
  by (auto simp: generateAIResponse_def try_block_def Let_def split: promise.splits)

lemma generateAIResponse_fetch_calls:
  "fetch_calls (snd (generateAIResponse env u)) =
     (case VITE_GROQ_API_KEY env of
        None \<Rightarrow> []
      | Some k \<Rightarrow> if k = [] then [] else [(endpoint, request env k u)])"
proof (cases "key_missing (VITE_GROQ_API_KEY env)")
  case True
  then show ?thesis
    by (simp add: generateAIResponse_no_key) (simp add: key_missing_def split: option.splits)
next
  case False
  then obtain k where k: "VITE_GROQ_API_KEY env = Some k" "k \<noteq> []"
    by (auto simp: key_missing_def split: option.splits)
  from generateAIResponse_effects_key [OF k, of u] show ?thesis
    using k by auto
qed

lemma fetch_calls_take_1:
  "fetch_calls (take 1 (snd (generateAIResponse env u))) = fetch_calls (snd (generateAIResponse env u))"
proof (cases "key_missing (VITE_GROQ_API_KEY env)")
  case True
  then show ?thesis by (simp add: generateAIResponse_no_key)
next
  case False
  then obtain k where k: "VITE_GROQ_API_KEY env = Some k" "k \<noteq> []"
    by (auto simp: key_missing_def split: option.splits)
  from generateAIResponse_effects_key [OF k, of u] show ?thesis
    by auto
qed

lemma fetch_calls_drop_1:
  "fetch_calls (drop 1 (snd (generateAIResponse env u))) = []"
proof (cases "key_missing (VITE_GROQ_API_KEY env)")
  case True
  then show ?thesis by (simp add: generateAIResponse_no_key)
next
  case False
  then obtain k where k: "VITE_GROQ_API_KEY env = Some k" "k \<noteq> []"
    by (auto simp: key_missing_def split: option.splits)
  from generateAIResponse_effects_key [OF k, of u] show ?thesis
    by auto
qed

lemma handleSubmit_sync_blank:
  "trim (input s) = [] \<Longrightarrow>
     handleSubmit_sync env c s =
       (s\<lparr>error := validation_message, timers := timers s @ [(3000, ClearError)]\<rparr>, None)"
  by (simp add: handleSubmit_sync_def)

lemma handleSubmit_sync_text:
  "trim (input s) \<noteq> [] \<Longrightarrow>
     handleSubmit_sync env c s =
       (s\<lparr>messages := messages s @ [userMessage c (input s)],
          input := [],
          isLoading := True,
          error := [],
          effects := effects s @ take 1 (snd (generateAIResponse env (trim (input s))))\<rparr>,
        Some \<lparr> reply = completion env (trim (input s)),
               later = drop 1 (snd (generateAIResponse env (trim (input s)))),
               speech_on = speechEnabled s \<rparr>)"
  by (simp add: handleSubmit_sync_def split: prod.splits)

lemma handleSubmit_resume_Resolved:
  "reply p = Resolved v \<Longrightarrow>
     handleSubmit_resume c p s =
       s\<lparr>effects := effects s @ later p,
         messages := messages s @ [aiMessage c v],
         timers := (if speech_on p then timers s @ [(500, SpeakText (speech_on p) v)] else timers s),
         isLoading := False\<rparr>"
  by (simp add: handleSubmit_resume_def)

lemma handleSubmit_text_Resolved:
  assumes "trim (input s) \<noteq> []" and "completion env (trim (input s)) = Resolved v"
  shows "messages (handleSubmit env c c' s) = messages s @ [userMessage c (input s), aiMessage c' v]"
    and "error (handleSubmit env c c' s) = []"
    and "isLoading (handleSubmit env c c' s) = False"
    and "input (handleSubmit env c c' s) = []"
    and "fetch_calls (effects (handleSubmit env c c' s)) =
           fetch_calls (effects s) @ fetch_calls (snd (generateAIResponse env (trim (input s))))"
  using assms
  by (simp_all add: handleSubmit_def handleSubmit_sync_text handleSubmit_resume_Resolved
      fetch_calls_append fetch_calls_take_1 fetch_calls_drop_1)

lemma trim_asking: "trim (input asking) = lit ''What is a black hole?''"
  by (simp add: asking_def trim_def trimmable_def isWhiteSpace_def isLineTerminator_def lit_def)

lemma trim_blank: "trim (input blank) = []"
  by (simp add: blank_def trim_def trimmable_def isWhiteSpace_def isLineTerminator_def lit_def)

lemma completion_env_reply:
  "completion env_reply u = Resolved (JStr (lit ''A region of spacetime.''))"
  by (simp add: generateAIResponse_def env_reply_def replied_def black_hole_def stand_in_def
      try_block_def read_content_def lit_def)

text \<open>
  Where the payload cannot be written as a string, the apology embeds the message of the
  \<^verbatim>\<open>TypeError\<close> instead of the description.
\<close>

lemma unrenderable_payload:
  "completion env_unavailable (lit ''hi'') =
     Resolved (JStr (apology (lit ''Cannot convert object to primitive value'')))"
  by (simp add: generateAIResponse_def env_unavailable_def unavailable_def stand_in_def
      try_block_def not_ok_throws_def payload_text_def lit_def)

subsection \<open>The handler and the events\<close>

lemma handleSubmit_resume_loading:
  "reply p \<noteq> Pending \<Longrightarrow> \<not> isLoading (handleSubmit_resume c p s)"
  by (cases "reply p") (simp_all add: handleSubmit_resume_def)

lemma handleSubmit_resume_messages:
  "messages (handleSubmit_resume c p s) = messages s \<or>
   (\<exists>m. messages (handleSubmit_resume c p s) = messages s @ [m])"
  by (cases "reply p") (simp_all add: handleSubmit_resume_def)

lemma handleSubmit_sync_messages:
  "messages (fst (handleSubmit_sync env c s)) = messages s \<or>
   (\<exists>m. messages (fst (handleSubmit_sync env c s)) = messages s @ [m])"
  by (cases "trim (input s) = []") (simp_all add: handleSubmit_sync_blank handleSubmit_sync_text)

lemma speakText_speech_queue: "\<exists>q. speakText env enabled t s = s\<lparr>speech_queue := q\<rparr>"
proof (cases "\<not> enabled \<or> \<not> speechSynthesis_in_window env")
  case True
  then have "speakText env enabled t s = s\<lparr>speech_queue := speech_queue s\<rparr>"
    by (simp add: speakText_def)
  then show ?thesis ..
next
  case False
  then show ?thesis
    by (cases "utterance_text env t") (auto simp: speakText_def speak_def cancel_def)
qed

lemma speakText_messages: "messages (speakText env enabled t s) = messages s"
proof -
  obtain q where "speakText env enabled t s = s\<lparr>speech_queue := q\<rparr>"
    using speakText_speech_queue by blast
  then show ?thesis by simp
qed

lemma step_messages:
  "messages (step env e s) = messages s \<or> (\<exists>m. messages (step env e s) = messages s @ [m])"
proof (cases e)
  case (Submit c)
  then show ?thesis
    using handleSubmit_sync_messages [of env c s]
    by (cases "handleSubmit_sync env c s") (auto split: option.splits)
next
  case (Settled k c)
  then show ?thesis
    using handleSubmit_resume_messages [of c "awaiting s ! k" "s\<lparr>awaiting := without k (awaiting s)\<rparr>"]
    by auto
next
  case (Timeout k)
  then show ?thesis
    by (cases "snd (timers s ! k)") (simp_all add: speakText_messages)
qed (simp_all add: stopSpeaking_def cancel_def)

lemma run_messages: "prefix (messages s) (messages (run env es s))"
proof (induction es arbitrary: s)
  case Nil
  then show ?case by simp
next
  case (Cons e es)
  have "prefix (messages s) (messages (step env e s))"
    using step_messages [of env e s] by auto
  then show ?case
    using Cons.IH [of "step env e s"] by (auto intro: prefix_order.trans)
qed

lemma handleSubmit_fetch_calls:
  "fetch_calls (effects (handleSubmit env c c' s)) =
     fetch_calls (effects s) @
       (if trim (input s) = [] then []
        else fetch_calls (snd (generateAIResponse env (trim (input s)))))"
proof (cases "trim (input s) = []")
  case True
  then show ?thesis
    by (simp add: handleSubmit_def handleSubmit_sync_blank)
next
  case False
  then show ?thesis
    by (cases "completion env (trim (input s))")
      (simp_all add: handleSubmit_def handleSubmit_sync_text handleSubmit_resume_def
        fetch_calls_append fetch_calls_take_1 [unfolded One_nat_def]
        fetch_calls_drop_1 [unfolded One_nat_def])
qed

lemma handleSubmit_sync_ignores_messages:
  "snd (handleSubmit_sync env c (s\<lparr>messages := ms\<rparr>)) = snd (handleSubmit_sync env c s)"
  by (cases "trim (input s) = []") (simp_all add: handleSubmit_sync_blank handleSubmit_sync_text)

subsection \<open>The \<^verbatim>\<open>catch\<close> branch of the handler\<close>

lemma catch_ran_append: "catch_ran (xs @ ys) = (catch_ran xs \<or> catch_ran ys)"
  by (induction xs rule: catch_ran.induct) simp_all

lemma catch_ran_take: "\<not> catch_ran xs \<Longrightarrow> \<not> catch_ran (take n xs)"
  using catch_ran_append [of "take n xs" "drop n xs"] by simp

lemma catch_ran_drop: "\<not> catch_ran xs \<Longrightarrow> \<not> catch_ran (drop n xs)"
  using catch_ran_append [of "take n xs" "drop n xs"] by simp

lemma labels_differ:
  "lit ''GROQ_API_KEY is not set in environment variables.'' \<noteq> catch_line"
  "lit ''Groq API error response:'' \<noteq> catch_line"
  "lit ''Error calling Groq API:'' \<noteq> catch_line"
  by (simp_all add: catch_line_def lit_def)

lemma try_block_no_catch_line: "\<not> catch_ran (snd (try_block env k u))"
  by (simp add: try_block_def Let_def labels_differ split: promise.splits)

lemma generateAIResponse_no_catch_line: "\<not> catch_ran (snd (generateAIResponse env u))"
proof (cases "key_missing (VITE_GROQ_API_KEY env)")
  case True
  then show ?thesis
    by (simp add: generateAIResponse_no_key labels_differ)
next
  case False
  then obtain k where k: "VITE_GROQ_API_KEY env = Some k" "k \<noteq> []"
    by (auto simp: key_missing_def split: option.splits)
  show ?thesis
    using k try_block_no_catch_line [of env k u]
    by (cases "try_block env k u")
      (auto simp: generateAIResponse_def catch_ran_append labels_differ split: promise.splits)
qed

lemma messages_differ:
  "validation_message \<noteq> failure_message" "[] \<noteq> failure_message"
  by (simp_all add: validation_message_def failure_message_def lit_def)

lemma list_all_without: "list_all P xs \<Longrightarrow> list_all P (without k xs)"
  by (auto simp: without_def list_all_iff dest: in_set_takeD in_set_dropD)

lemma not_in_without: "x \<notin> set xs \<Longrightarrow> x \<notin> set (without k xs)"
  by (auto simp: without_def dest: in_set_takeD in_set_dropD)

lemma catch_free_initial: "catch_free initial"
  by (simp add: catch_free_def initial_def messages_differ)

lemma handleSubmit_sync_catch_free:
  assumes "catch_free s"
  shows "catch_free (step env (Submit c) s)"
proof (cases "trim (input s) = []")
  case True
  then show ?thesis
    using assms by (simp add: handleSubmit_sync_blank catch_free_def messages_differ)
next
  case False
  have "\<not> catch_ran (take 1 (snd (generateAIResponse env (trim (input s)))))"
    and "\<not> catch_ran (drop 1 (snd (generateAIResponse env (trim (input s)))))"
    by (simp_all only: generateAIResponse_no_catch_line catch_ran_take catch_ran_drop
        not_False_eq_True)
  moreover have "(case completion env (trim (input s)) of Rejected e \<Rightarrow> False | _ \<Rightarrow> True)"
    using generateAIResponse_not_Rejected [of env "trim (input s)"]
    by (cases "completion env (trim (input s))") auto
  ultimately show ?thesis
    using assms False
    by (simp add: handleSubmit_sync_text catch_free_def messages_differ catch_ran_append
        del: One_nat_def)
qed

lemma handleSubmit_resume_catch_free:
  assumes "catch_free s" and "k < length (awaiting s)"
  shows "catch_free (handleSubmit_resume c (awaiting s ! k) (s\<lparr>awaiting := without k (awaiting s)\<rparr>))"
proof -
  have parked: "(case reply (awaiting s ! k) of Rejected e \<Rightarrow> False | _ \<Rightarrow> True) \<and>
      \<not> catch_ran (later (awaiting s ! k))"
    using assms by (simp add: catch_free_def list_all_length)
  have rest: "list_all (\<lambda>p. (case reply p of Rejected e \<Rightarrow> False | _ \<Rightarrow> True) \<and> \<not> catch_ran (later p))
      (without k (awaiting s))"
    using assms(1) by (simp add: catch_free_def list_all_without)
  show ?thesis
    using assms(1) parked rest
    by (cases "reply (awaiting s ! k)")
      (simp_all add: handleSubmit_resume_def catch_free_def catch_ran_append)
qed

lemma step_catch_free:
  assumes "catch_free s"
  shows "catch_free (step env e s)"
proof (cases e)
  case (Submit c)
  then show ?thesis
    using assms by (simp only: handleSubmit_sync_catch_free)
next
  case (Settled k c)
  then show ?thesis
    using assms handleSubmit_resume_catch_free [of s k c] by simp
next
  case (Timeout k)
  show ?thesis
  proof (cases "snd (timers s ! k)")
    case ClearError
    with Timeout assms show ?thesis
      by (simp add: catch_free_def not_in_without messages_differ)
  next
    case (SpeakText enabled t)
    obtain q where "speakText env enabled t (s\<lparr>timers := without k (timers s)\<rparr>) =
        s\<lparr>timers := without k (timers s), speech_queue := q\<rparr>"
      using speakText_speech_queue by blast
    with SpeakText Timeout assms show ?thesis
      by (simp add: catch_free_def not_in_without)
  qed
qed (use assms in \<open>simp_all add: catch_free_def stopSpeaking_def cancel_def\<close>)

lemma run_catch_free: "catch_free s \<Longrightarrow> catch_free (run env es s)"
proof (induction es arbitrary: s)
  case Nil
  then show ?case by simp
next
  case (Cons e es)
  from Cons.IH [OF step_catch_free [OF Cons.prems]] show ?case by simp
qed

lemma handleSubmit_error:
  "error (handleSubmit env c c' s) = validation_message \<or> error (handleSubmit env c c' s) = []"
proof (cases "trim (input s) = []")
  case True
  then show ?thesis
    by (simp add: handleSubmit_def handleSubmit_sync_blank)
next
  case False
  then show ?thesis
    using generateAIResponse_not_Rejected [of env "trim (input s)"]
    by (cases "completion env (trim (input s))")
      (auto simp: handleSubmit_def handleSubmit_sync_text handleSubmit_resume_def)
qed

subsection \<open>The claims\<close>

text \<open>
  C1. When the trimmed input is not empty and the reply arrives, one submission appends
  exactly two messages: the user's, with the trimmed input as content, already there
  when the handler is parked at its \<^verbatim>\<open>await\<close>; then the assistant's, with
  what the client resolved with as content. The conversation grows by exactly 2.
\<close>

theorem round_trip_appends_two:
  assumes "trim (input s) \<noteq> []" and "completion env (trim (input s)) \<noteq> Pending"
  shows "\<exists>v. completion env (trim (input s)) = Resolved v \<and>
           messages (fst (handleSubmit_sync env c s)) = messages s @ [userMessage c (input s)] \<and>
           messages (handleSubmit env c c' s) =
             messages s @ [userMessage c (input s), aiMessage c' v] \<and>
           type (userMessage c (input s)) = user \<and>
           content (userMessage c (input s)) = JStr (trim (input s)) \<and>
           type (aiMessage c' v) = ai \<and> content (aiMessage c' v) = v \<and>
           length (messages (handleSubmit env c c' s)) = length (messages s) + 2"
proof -
  obtain v where v: "completion env (trim (input s)) = Resolved v"
    using assms(2) generateAIResponse_not_Rejected [of env "trim (input s)"]
    by (cases "completion env (trim (input s))") auto
  have "messages (fst (handleSubmit_sync env c s)) = messages s @ [userMessage c (input s)]"
    using assms(1) by (simp add: handleSubmit_sync_text)
  moreover have "messages (handleSubmit env c c' s) =
      messages s @ [userMessage c (input s), aiMessage c' v]"
    using assms(1) v by (rule handleSubmit_text_Resolved)
  ultimately show ?thesis
    using v by (auto simp: userMessage_def aiMessage_def)
qed

theorem round_trip_appends_two_witness:
  "messages (handleSubmit env_reply at_submit at_reply asking) =
     [userMessage at_submit (input asking),
      aiMessage at_reply (JStr (lit ''A region of spacetime.''))]"
proof -
  have nonempty: "trim (input asking) \<noteq> []"
    by (simp add: trim_asking lit_def)
  have settles: "completion env_reply (trim (input asking)) \<noteq> Pending"
    by (simp add: completion_env_reply)
  have "messages asking = []"
    by (simp add: asking_def initial_def)
  with round_trip_appends_two [OF nonempty settles, of at_submit at_reply] show ?thesis
    by (auto simp: completion_env_reply)
qed

text \<open>
  C2. When the input is empty after trimming, a submission appends no message, leaves
  the draft as it is, makes no call of the client (nothing is parked, nothing is done to
  the outside), and only sets the validation error and a timeout of 3000 milliseconds
  whose callback clears the error again.
\<close>

theorem blank_submission_changes_nothing:
  assumes "trim (input s) = []"
  shows "handleSubmit_sync env c s =
           (s\<lparr>error := validation_message, timers := timers s @ [(3000, ClearError)]\<rparr>, None) \<and>
         handleSubmit env c c' s =
           s\<lparr>error := validation_message, timers := timers s @ [(3000, ClearError)]\<rparr> \<and>
         messages (handleSubmit env c c' s) = messages s \<and>
         input (handleSubmit env c c' s) = input s \<and>
         effects (handleSubmit env c c' s) = effects s \<and>
         awaiting (step env (Submit c) s) = awaiting s \<and>
         error (handleSubmit env c c' s) = lit ''Please enter a question or command'' \<and>
         step env (Timeout (length (timers s))) (step env (Submit c) s) = s\<lparr>error := []\<rparr>"
  using assms
  by (simp add: handleSubmit_def handleSubmit_sync_blank validation_message_def without_def)

theorem blank_submission_changes_nothing_witness:
  "handleSubmit env_reply at_submit at_reply blank =
     blank\<lparr>error := validation_message, timers := [(3000, ClearError)]\<rparr> \<and>
   step env_reply (Timeout 0) (step env_reply (Submit at_submit) blank) = blank"
proof -
  note rejected = blank_submission_changes_nothing [OF trim_blank, of env_reply at_submit at_reply]
  have none: "timers blank = []" and same: "blank\<lparr>error := []\<rparr> = blank"
    by (simp_all add: blank_def initial_def)
  have "handleSubmit env_reply at_submit at_reply blank =
      blank\<lparr>error := validation_message, timers := timers blank @ [(3000, ClearError)]\<rparr>"
    using rejected by blast
  moreover have "step env_reply (Timeout (length (timers blank)))
      (step env_reply (Submit at_submit) blank) = blank\<lparr>error := []\<rparr>"
    using rejected by blast
  ultimately show ?thesis
    by (simp only: none same append_Nil list.size)
qed

text \<open>
  C3. The client is to resolve with a string on every outcome. It never rejects, but on
  a successful response it returns what the body holds at
  \<^verbatim>\<open>choices[0].message.content\<close> unchecked, although it is declared to return a
  string: for a body whose \<^verbatim>\<open>content\<close> is \<^verbatim>\<open>null\<close> it resolves with
  \<^verbatim>\<open>null\<close>. A neighbouring malformed body, one whose choice has no
  \<^verbatim>\<open>message\<close>, ends in the apology string.
\<close>

theorem generateAIResponse_resolves_with_null:
  "completion env_null_content (lit ''hi'') = Resolved JNull \<and>
   completion env_no_message (lit ''hi'') =
     Resolved (JStr (apology (lit ''Cannot read properties: content'')))"
  by (simp add: generateAIResponse_def env_null_content_def env_no_message_def stand_in_def
      try_block_def read_content_def null_content_def lit_def)




text \<open>
  C5. Without a key (the variable is not set, or is the empty string) the client
  resolves with the fixed apology, word for word, and makes no call of the transport. A
  submission of a non-empty input then appends two messages: the last but one has role
  \<^verbatim>\<open>user\<close> and the trimmed input as content, the last has role \<^verbatim>\<open>ai\<close>
  and that apology as content, as a reply would be appended; and the tab has made no
  call of the transport either.
\<close>

theorem missing_key_skips_the_network:
  assumes "key_missing (VITE_GROQ_API_KEY env)"
  shows "completion env u =
           Resolved (JStr (lit ''I'm sorry, I cannot connect to the AI service. Please ensure the API key is configured correctly.'')) \<and>
         fetch_calls (snd (generateAIResponse env u)) = [] \<and>
         (trim (input s) \<noteq> [] \<longrightarrow>
            length (messages (handleSubmit env c c' s)) = length (messages s) + 2 \<and>
            butlast (butlast (messages (handleSubmit env c c' s))) = messages s \<and>
            type (last (butlast (messages (handleSubmit env c c' s)))) = user \<and>
            content (last (butlast (messages (handleSubmit env c c' s)))) = JStr (trim (input s)) \<and>
            type (last (messages (handleSubmit env c c' s))) = ai \<and>
            content (last (messages (handleSubmit env c c' s))) =
              JStr (lit ''I'm sorry, I cannot connect to the AI service. Please ensure the API key is configured correctly.'') \<and>
            messages (handleSubmit env c c' s) =
              messages s @ [userMessage c (input s), aiMessage c' (JStr no_key_apology)] \<and>
            fetch_calls (effects (handleSubmit env c c' s)) = fetch_calls (effects s))"
proof -
  have call: "generateAIResponse env v =
      (Resolved (JStr no_key_apology),
       [ConsoleError (lit ''GROQ_API_KEY is not set in environment variables.'') NoArgument])" for v
    using assms by (rule generateAIResponse_no_key)
  have appended: "messages (handleSubmit env c c' s) =
      messages s @ [userMessage c (input s), aiMessage c' (JStr no_key_apology)]"
    if "trim (input s) \<noteq> []"
    using that by (rule handleSubmit_text_Resolved) (simp add: call)
  have shape: "butlast (butlast (xs @ [a, b])) = xs" "last (butlast (xs @ [a, b])) = a"
    "last (xs @ [a, b]) = b" for xs :: "message list" and a b
    by (simp_all add: butlast_append)
  have "type (userMessage c (input s)) = user"
    and "content (userMessage c (input s)) = JStr (trim (input s))"
    and "type (aiMessage c' (JStr no_key_apology)) = ai"
    and "content (aiMessage c' (JStr no_key_apology)) = JStr no_key_apology"
    by (simp_all add: userMessage_def aiMessage_def)
  then show ?thesis
    by (simp add: call handleSubmit_fetch_calls appended shape) (simp add: no_key_apology_def)
qed

theorem missing_key_skips_the_network_witness:
  "fetch_calls (snd (generateAIResponse env_no_key (lit ''hi''))) = [] \<and>
   length (messages (handleSubmit env_no_key at_submit at_reply asking)) = 2 \<and>
   type (last (messages (handleSubmit env_no_key at_submit at_reply asking))) = ai \<and>
   content (last (messages (handleSubmit env_no_key at_submit at_reply asking))) =
     JStr (lit ''I'm sorry, I cannot connect to the AI service. Please ensure the API key is configured correctly.'') \<and>
   type (last (butlast (messages (handleSubmit env_no_key at_submit at_reply asking)))) = user \<and>
   content (last (butlast (messages (handleSubmit env_no_key at_submit at_reply asking)))) =
     JStr (lit ''What is a black hole?'') \<and>
   fetch_calls (effects (handleSubmit env_no_key at_submit at_reply asking)) = []"
proof -
  have missing: "key_missing (VITE_GROQ_API_KEY env_no_key)"
    by (simp add: env_no_key_def key_missing_def)
  have nonempty: "trim (input asking) \<noteq> []"
    by (simp add: trim_asking lit_def)
  have fresh: "length (messages asking) = 0" "fetch_calls (effects asking) = []"
    by (simp_all add: asking_def initial_def)
  note at_asking =
    missing_key_skips_the_network [OF missing, of "lit ''hi''" asking at_submit at_reply]
  have "fetch_calls (snd (generateAIResponse env_no_key (lit ''hi''))) = []"
    using at_asking by blast
  moreover have "length (messages (handleSubmit env_no_key at_submit at_reply asking)) =
      length (messages asking) + 2"
    and "type (last (messages (handleSubmit env_no_key at_submit at_reply asking))) = ai"
    and "content (last (messages (handleSubmit env_no_key at_submit at_reply asking))) =
      JStr (lit ''I'm sorry, I cannot connect to the AI service. Please ensure the API key is configured correctly.'')"
    and "type (last (butlast (messages (handleSubmit env_no_key at_submit at_reply asking)))) = user"
    and "content (last (butlast (messages (handleSubmit env_no_key at_submit at_reply asking)))) =
      JStr (trim (input asking))"
    and "fetch_calls (effects (handleSubmit env_no_key at_submit at_reply asking)) =
      fetch_calls (effects asking)"
    using at_asking nonempty by blast+
  ultimately show ?thesis
    by (simp only: fresh trim_asking add_0 simp_thms)
qed

text \<open>
  C6. \<^verbatim>\<open>speakText\<close> is to do nothing when speech is switched off. Its one call
  in the component comes from the timeout of a submission, and the variable it tests is
  the \<^verbatim>\<open>speechEnabled\<close> of the render in which the form was submitted. With
  speech switched off while the reply is awaited, the session has
  \<^verbatim>\<open>speechEnabled\<close> false and an empty queue when the timeout is pending; the
  timeout fires, and the call cancels and speaks all the same.
\<close>

theorem speakText_reads_a_stale_toggle:
  "speechEnabled (run env_reply toggled_while_waiting initial) = False \<and>
   speech_queue (run env_reply toggled_while_waiting initial) = [] \<and>
   timers (run env_reply toggled_while_waiting initial) =
     [(500, SpeakText True (JStr (lit ''A region of spacetime.'')))] \<and>
   speechEnabled (run env_reply (toggled_while_waiting @ [Timeout 0]) initial) = False \<and>
   speech_queue (run env_reply (toggled_while_waiting @ [Timeout 0]) initial) =
     [\<lparr> text_utt = lit ''A region of spacetime.'', rate = 9 / 10, pitch = 1, volume = 8 / 10 \<rparr>]"
proof -
  have typed: "trim (lit ''What is a black hole?'') \<noteq> []"
    by (simp add: trim_def trimmable_def isWhiteSpace_def isLineTerminator_def lit_def)
  have spoken: "utterance_text env_reply (JStr (lit ''A region of spacetime.'')) =
      Inr (lit ''A region of spacetime.'')"
    by (simp add: utterance_text_def)
  have engine: "speechSynthesis_in_window env_reply"
    by (simp add: env_reply_def stand_in_def)
  show ?thesis
    using typed
    by (simp add: toggled_while_waiting_def initial_def handleSubmit_sync_text
        handleSubmit_resume_def completion_env_reply without_def speakText_def spoken engine
        speak_def cancel_def new_utterance_def)
qed

text \<open>
  C7. A submission of a non-empty input sets \<^verbatim>\<open>isLoading\<close> and parks the
  handler; when the awaited promise settles, resolved or rejected, in whatever state the
  session is then, the handler leaves \<^verbatim>\<open>isLoading\<close> false.
\<close>

theorem loading_flag_always_reset:
  "(trim (input s) \<noteq> [] \<longrightarrow>
      isLoading (fst (handleSubmit_sync env c s)) \<and> snd (handleSubmit_sync env c s) \<noteq> None) \<and>
   (reply p \<noteq> Pending \<longrightarrow> \<not> isLoading (handleSubmit_resume c' p s')) \<and>
   (trim (input s) \<noteq> [] \<and> completion env (trim (input s)) \<noteq> Pending \<longrightarrow>
      \<not> isLoading (handleSubmit env c c' s))"
proof (intro conjI impI)
  assume typed: "trim (input s) \<noteq> []"
  then show "isLoading (fst (handleSubmit_sync env c s))"
    by (simp add: handleSubmit_sync_text)
  from typed show "snd (handleSubmit_sync env c s) \<noteq> None"
    by (simp add: handleSubmit_sync_text)
next
  assume "reply p \<noteq> Pending"
  then show "\<not> isLoading (handleSubmit_resume c' p s')"
    by (rule handleSubmit_resume_loading)
next
  assume "trim (input s) \<noteq> [] \<and> completion env (trim (input s)) \<noteq> Pending"
  then have "handleSubmit env c c' s =
      handleSubmit_resume c'
        \<lparr> reply = completion env (trim (input s)),
          later = drop 1 (snd (generateAIResponse env (trim (input s)))),
          speech_on = speechEnabled s \<rparr>
        (fst (handleSubmit_sync env c s))"
    and "completion env (trim (input s)) \<noteq> Pending"
    by (simp_all add: handleSubmit_def handleSubmit_sync_text)
  then show "\<not> isLoading (handleSubmit env c c' s)"
    by (simp add: handleSubmit_resume_loading)
qed

theorem loading_flag_always_reset_witness:
  "isLoading (fst (handleSubmit_sync env_reply at_submit asking)) \<and>
   \<not> isLoading (handleSubmit_resume at_reply failing
        (fst (handleSubmit_sync env_reply at_submit asking))) \<and>
   \<not> isLoading (handleSubmit env_reply at_submit at_reply asking)"
proof -
  have nonempty: "trim (input asking) \<noteq> []"
    by (simp add: trim_asking lit_def)
  have settles: "completion env_reply (trim (input asking)) \<noteq> Pending"
    by (simp add: completion_env_reply)
  have rejected: "reply failing \<noteq> Pending"
    by (simp add: failing_def)
  from loading_flag_always_reset
    [of asking env_reply at_submit failing at_reply "fst (handleSubmit_sync env_reply at_submit asking)"]
    nonempty settles rejected
  show ?thesis by blast
qed

text \<open>
  C8. Every event leaves the messages as they are or appends one message at the end;
  so the conversation at any moment is a prefix of the conversation at any later
  moment.
\<close>

theorem conversation_is_append_only:
  "(messages (step env e s) = messages s \<or> (\<exists>m. messages (step env e s) = messages s @ [m])) \<and>
   prefix (messages s) (messages (run env es s)) \<and>
   prefix (messages (run env es s)) (messages (run env (es @ es') s))"
proof -
  have "run env (es @ es') s = run env es' (run env es s)"
    by (induction es arbitrary: s) simp_all
  then show ?thesis
    by (simp add: step_messages run_messages)
qed

text \<open>
  C9. A call of the client issues at most one request, none without a key. The request
  goes to the fixed endpoint as a POST whose body is the serialisation of: the model
  \<^verbatim>\<open>gemma2-9b-it\<close>, a \<^verbatim>\<open>messages\<close> array of exactly one entry with role
  \<^verbatim>\<open>user\<close> and the prompt as content, \<^verbatim>\<open>max_tokens\<close> 500,
  \<^verbatim>\<open>temperature\<close> 0.7 and \<^verbatim>\<open>stream\<close> false. These are all the requests
  of a submission, and the call a submission makes is the same whatever the
  conversation holds.
\<close>

theorem request_carries_only_the_prompt:
  "fetch_calls (snd (generateAIResponse env u)) =
     (case VITE_GROQ_API_KEY env of
        None \<Rightarrow> []
      | Some k \<Rightarrow>
          if k = [] then []
          else [(lit ''https://api.groq.com/openai/v1/chat/completions'',
                 \<lparr> method_req = lit ''POST'',
                   headers = [(lit ''Content-Type'', lit ''application/json''),
                              (lit ''Authorization'', lit ''Bearer '' @ k)],
                   body = JSON_stringify env
                     (JObj [(lit ''model'', JStr (lit ''gemma2-9b-it'')),
                            (lit ''messages'',
                               JArr [JObj [(lit ''role'', JStr (lit ''user'')),
                                           (lit ''content'', JStr u)]]),
                            (lit ''max_tokens'', JNum 500),
                            (lit ''temperature'', JNum (7 / 10)),
                            (lit ''stream'', JBool False)]) \<rparr>)]) \<and>
   fetch_calls (effects (handleSubmit env c c' s)) =
     fetch_calls (effects s) @
       (if trim (input s) = [] then []
        else fetch_calls (snd (generateAIResponse env (trim (input s))))) \<and>
   snd (handleSubmit_sync env c (s\<lparr>messages := ms\<rparr>)) = snd (handleSubmit_sync env c s)"
proof -
  have "(endpoint, request env k u) =
      (lit ''https://api.groq.com/openai/v1/chat/completions'',
       \<lparr> method_req = lit ''POST'',
         headers = [(lit ''Content-Type'', lit ''application/json''),
                    (lit ''Authorization'', lit ''Bearer '' @ k)],
         body = JSON_stringify env
           (JObj [(lit ''model'', JStr (lit ''gemma2-9b-it'')),
                  (lit ''messages'',
                     JArr [JObj [(lit ''role'', JStr (lit ''user'')),
                                 (lit ''content'', JStr u)]]),
                  (lit ''max_tokens'', JNum 500),
                  (lit ''temperature'', JNum (7 / 10)),
                  (lit ''stream'', JBool False)]) \<rparr>)" for k
    by (simp only: endpoint_def request_def request_payload_def)
  then show ?thesis
    by (simp only: generateAIResponse_fetch_calls handleSubmit_fetch_calls
        handleSubmit_sync_ignores_messages simp_thms)
qed

text \<open>
  C10. The client never rejects, so the \<^verbatim>\<open>catch\<close> branch of the handler is
  dead: after a submission the banner is never the text of that branch, and whatever
  happens to a fresh session, the banner is never that text, the console line of the
  branch is never written and its timeout of 5000 milliseconds is never pending.
\<close>

theorem catch_branch_is_dead:
  "(\<forall>e. completion env u \<noteq> Rejected e) \<and>
   error (handleSubmit env c c' s) \<noteq> lit ''Failed to get response. Please try again.'' \<and>
   error (run env es initial) \<noteq> lit ''Failed to get response. Please try again.'' \<and>
   \<not> catch_ran (effects (run env es initial)) \<and>
   (5000, ClearError) \<notin> set (timers (run env es initial))"
proof -
  have "catch_free (run env es initial)"
    using catch_free_initial by (rule run_catch_free)
  then have "error (run env es initial) \<noteq> failure_message"
    and "\<not> catch_ran (effects (run env es initial))"
    and "(5000, ClearError) \<notin> set (timers (run env es initial))"
    by (simp_all add: catch_free_def)
  moreover have "error (handleSubmit env c c' s) \<noteq> failure_message"
    using handleSubmit_error [of env c c' s] messages_differ by metis
  ultimately show ?thesis
    by (simp add: generateAIResponse_not_Rejected failure_message_def)
qed

end
